theory Spec2Isabelle
  imports Main
begin

section \<open>Go values used by the mock connection\<close>

text \<open>
  The package \<open>mock\<close> of go-imap implements an in-memory \<open>net.Conn\<close> pair (\<open>conn.go\<close>)
  and a scripted server (\<open>mock.go\<close>). This theory embeds both, and the
  \<open>EnableTLS\<close> method of \<open>imap/server.go\<close>.

  A \<open>time.Time\<close> is modelled as the (unbounded) number of nanoseconds since Go's zero
  instant, so \<open>t.IsZero()\<close> is \<open>t = 0\<close>; a \<open>time.Duration\<close> is a number of
  nanoseconds. Every call of \<open>time.Now()\<close> is an input of the model (a clock reading).
  A byte is a \<open>char\<close>, so a Go \<open>string\<close> and a \<open>[]byte\<close> both are character lists and
  the conversions between them are the identity.
\<close>

type_synonym byte = char
type_synonym time = int
type_synonym duration = int

definition IsZero :: "time \<Rightarrow> bool" where
  "IsZero t = (t = 0)"

definition Before :: "time \<Rightarrow> time \<Rightarrow> bool" where
  "Before t u = (t < u)"

definition After :: "time \<Rightarrow> time \<Rightarrow> bool" where
  "After t u = (t > u)"

definition Add :: "time \<Rightarrow> duration \<Rightarrow> time" where
  "Add t d = t + d"

definition Sub :: "time \<Rightarrow> time \<Rightarrow> duration" where
  "Sub t u = t - u"

text \<open>
  The errors of \<open>conn.go\<close>: \<open>io.EOF\<close> and \<open>netTimeout\<close>, a string type whose methods
  \<open>Timeout()\<close> and \<open>Temporary()\<close> are the constants \<open>true\<close> and \<open>false\<close>.
  \<open>io.EOF\<close> has neither method (it is not a \<open>net.Error\<close>). \<open>ErrEncryptionActive\<close>
  is the error variable of package \<open>imap\<close> that \<open>EnableTLS\<close> returns, and
  \<open>errorString\<close> stands for any other error value.
\<close>

datatype error = EOF | netTimeout string | ErrEncryptionActive | errorString string

definition netTimeout_Error :: "string \<Rightarrow> string" where
  "netTimeout_Error e = e"

definition netTimeout_Timeout :: "string \<Rightarrow> bool" where
  "netTimeout_Timeout e = True"

definition netTimeout_Temporary :: "string \<Rightarrow> bool" where
  "netTimeout_Temporary e = False"

fun Timeout_method :: "error \<Rightarrow> bool option" where
  "Timeout_method EOF = None"
| "Timeout_method (netTimeout e) = Some (netTimeout_Timeout e)"
| "Timeout_method ErrEncryptionActive = None"
| "Timeout_method (errorString e) = None"

fun Temporary_method :: "error \<Rightarrow> bool option" where
  "Temporary_method EOF = None"
| "Temporary_method (netTimeout e) = Some (netTimeout_Temporary e)"
| "Temporary_method ErrEncryptionActive = None"
| "Temporary_method (errorString e) = None"

subsection \<open>netTimer\<close>

text \<open>
  \<open>type netTimer struct { *time.Timer; now, end time.Time }\<close>. The embedded timer
  pointer is \<open>None\<close> for \<open>nil\<close> and \<open>Some d\<close> for a timer armed to fire after \<open>d\<close>.
\<close>

record netTimer =
  Timer :: "duration option"
  tnow :: time
  tend :: time

definition zero_netTimer :: netTimer where
  "zero_netTimer = \<lparr>Timer = None, tnow = 0, tend = 0\<rparr>"

text \<open>\<open>Set(deadline, timeout)\<close>; \<open>clk\<close> is what \<open>time.Now()\<close> returns.\<close>

definition netTimer_Set :: "netTimer \<Rightarrow> time \<Rightarrow> duration \<Rightarrow> time \<Rightarrow> netTimer" where
  "netTimer_Set t deadline timeout clk =
     (if timeout > 0 then
        (let t1 = t\<lparr>tend := Add clk timeout\<rparr>
         in if \<not> IsZero deadline \<and> Before deadline (tend t1)
            then t1\<lparr>tend := deadline\<rparr> else t1)
      else if \<not> IsZero deadline then t\<lparr>tend := deadline\<rparr>
      else t)"

text \<open>\<open>Timeout()\<close> returns the answer and the timer, whose \<open>now\<close> it may have set.\<close>

definition netTimer_Timeout :: "netTimer \<Rightarrow> time \<Rightarrow> bool \<times> netTimer" where
  "netTimer_Timeout t clk =
     (if \<not> IsZero (tend t) then
        (let t1 = t\<lparr>tnow := clk\<rparr> in (\<not> After (tend t1) (tnow t1), t1))
      else (False, t))"

text \<open>\<open>Schedule(c)\<close> returns \<open>deferStop\<close> and the timer.\<close>

definition netTimer_Schedule :: "netTimer \<Rightarrow> bool \<times> netTimer" where
  "netTimer_Schedule t =
     (if \<not> IsZero (tend t) then
        (let d = Sub (tend t) (tnow t)
         in if Timer t = None then (True, t\<lparr>Timer := Some d\<rparr>)
            else (False, t\<lparr>Timer := Some d\<rparr>))
      else (False, t))"

subsection \<open>Byte slices\<close>

text \<open>
  A non-nil \<open>[]byte\<close> that starts at the beginning of its backing array is the array
  \<open>arr\<close> (its length is the capacity) and the length \<open>len\<close>; the \<open>nil\<close> slice is
  \<open>None\<close>. Every slice stored in \<open>halfConn.buf\<close> has this shape: the code only
  assigns \<open>make([]byte, 0, bufSize)\<close>, \<open>nil\<close> and \<open>c.buf[:k]\<close> to it.
\<close>

record slice =
  arr :: "byte list"
  len :: nat

definition make_bytes :: "nat \<Rightarrow> nat \<Rightarrow> slice option" where
  "make_bytes l c = Some \<lparr>arr = replicate c (CHR 0x00), len = l\<rparr>"

definition len_s :: "slice option \<Rightarrow> nat" where
  "len_s s = (case s of None \<Rightarrow> 0 | Some x \<Rightarrow> len x)"

definition cap_s :: "slice option \<Rightarrow> nat" where
  "cap_s s = (case s of None \<Rightarrow> 0 | Some x \<Rightarrow> length (arr x))"

text \<open>The elements \<open>s[0], ..., s[len(s)-1]\<close>.\<close>

definition elems :: "slice option \<Rightarrow> byte list" where
  "elems s = (case s of None \<Rightarrow> [] | Some x \<Rightarrow> take (len x) (arr x))"

text \<open>\<open>s[:k]\<close>; \<open>nil[:0]\<close> is \<open>nil\<close>.\<close>

definition reslice :: "slice option \<Rightarrow> nat \<Rightarrow> slice option" where
  "reslice s k = (case s of None \<Rightarrow> None | Some x \<Rightarrow> Some (x\<lparr>len := k\<rparr>))"

text \<open>
  \<open>copy(a[lo:hi], src)\<close> on an array \<open>a\<close>: the array afterwards and the number of
  bytes copied. \<open>src\<close> is read before anything is written (Go's \<open>copy\<close> is a
  \<open>memmove\<close>), so it may be taken from \<open>a\<close> itself.
\<close>

definition copy :: "byte list \<Rightarrow> nat \<Rightarrow> nat \<Rightarrow> byte list \<Rightarrow> byte list \<times> nat" where
  "copy a lo hi src =
     (let k = min (hi - lo) (length src)
      in (take lo a @ take k src @ drop (lo + k) a, k))"

text \<open>\<open>copy(s[lo:hi], src)\<close> on a slice: \<open>copy\<close> into \<open>nil[0:0]\<close> copies nothing.\<close>

definition copy_into :: "slice option \<Rightarrow> nat \<Rightarrow> nat \<Rightarrow> byte list \<Rightarrow> slice option \<times> nat" where
  "copy_into s lo hi src =
     (case s of
        None \<Rightarrow> (None, 0)
      | Some x \<Rightarrow> (let (a, k) = copy (arr x) lo hi src in (Some (x\<lparr>arr := a\<rparr>), k)))"

subsection \<open>halfConn\<close>

text \<open>
  \<open>type halfConn struct { sync.Cond; addr string; buf []byte; off int; eof bool }\<close>.
  The embedded condition variable is represented by the number of \<open>Broadcast\<close> calls
  made on it.
\<close>

record halfConn =
  Cond :: nat
  addr :: string
  buf :: "slice option"
  off :: int
  eof :: bool

definition Broadcast :: "halfConn \<Rightarrow> halfConn" where
  "Broadcast c = c\<lparr>Cond := Suc (Cond c)\<rparr>"

definition newHalfConn :: "string \<Rightarrow> nat \<Rightarrow> halfConn" where
  "newHalfConn a bufSize =
     \<lparr>Cond = 0, addr = a, buf = make_bytes 0 bufSize, off = 0, eof = False\<rparr>"

text \<open>
  One pass through the \<open>switch\<close> of \<open>halfConn.read\<close>, which runs with the mutex held.
  It returns (\<open>RdReturn n err b c\<close>: the results, the destination \<open>b\<close> and the
  receiver afterwards), falls through to \<open>Schedule\<close> and \<open>Wait\<close> (\<open>RdWait\<close>), or
  panics: the slice expression \<open>c.buf[c.off:]\<close> needs \<open>0 \<le> off \<le> len(buf)\<close>.
\<close>

datatype rd_step =
  RdReturn nat "error option" "byte list" halfConn
| RdWait netTimer halfConn
| RdPanic

definition read_switch :: "netTimer \<Rightarrow> time \<Rightarrow> byte list \<Rightarrow> string \<Rightarrow> halfConn \<Rightarrow> rd_step" where
  "read_switch alarm clk b a c =
     (if buf c = None then RdReturn 0 (Some EOF) b c
      else let (expired, alarm1) = netTimer_Timeout alarm clk in
        if expired then RdReturn 0 (Some (netTimeout (''mock('' @ a @ ''): read timeout''))) b c
        else if length b = 0 then RdReturn 0 None b c
        else if len_s (buf c) > 0 then
          (if off c < 0 \<or> int (len_s (buf c)) < off c then RdPanic
           else
             let (b1, n) = copy b 0 (length b) (drop (nat (off c)) (elems (buf c)));
                 c1 = c\<lparr>off := off c + int n\<rparr>
             in if off c1 = int (len_s (buf c1))
                then RdReturn n (if eof c1 then Some EOF else None) b1
                       (Broadcast (c1\<lparr>buf := reslice (buf c1) 0, off := 0\<rparr>))
                else RdReturn n None b1 (Broadcast c1))
        else RdWait alarm1 c)"

text \<open>
  One pass through the \<open>switch\<close> of \<open>halfConn.write\<close>; \<open>n\<close> is the local count of
  bytes written by earlier passes. The fourth case returns only when all of \<open>b\<close> is
  written, and falls through to \<open>Wait\<close> otherwise. \<open>compact\<close> is the body of
  \<open>if len(c.buf) == cap(c.buf)\<close>, and \<open>fill\<close> the two statements after it.
\<close>

datatype wr_step =
  WrReturn nat "error option" halfConn
| WrWait nat netTimer halfConn
| WrPanic

definition compact :: "halfConn \<Rightarrow> halfConn" where
  "compact c =
     (let (s, k) = copy_into (buf c) 0 (len_s (buf c)) (drop (nat (off c)) (elems (buf c)))
      in c\<lparr>buf := reslice s k, off := 0\<rparr>)"

definition fill :: "halfConn \<Rightarrow> byte list \<Rightarrow> halfConn \<times> nat" where
  "fill c src =
     (let (s, i) = copy_into (buf c) (len_s (buf c)) (cap_s (buf c)) src
      in (c\<lparr>buf := reslice s (len_s (buf c) + i)\<rparr>, i))"

definition write_switch :: "netTimer \<Rightarrow> time \<Rightarrow> byte list \<Rightarrow> string \<Rightarrow> nat \<Rightarrow> halfConn \<Rightarrow> wr_step" where
  "write_switch alarm clk b a n c =
     (if eof c then WrReturn n (Some EOF) c
      else let (expired, alarm1) = netTimer_Timeout alarm clk in
        if expired then WrReturn n (Some (netTimeout (''mock('' @ a @ ''): write timeout''))) c
        else if length b = 0 then WrReturn n None c
        else if int (len_s (buf c)) - off c < int (cap_s (buf c)) then
          (if len_s (buf c) = cap_s (buf c) \<and> (off c < 0 \<or> int (len_s (buf c)) < off c)
           then WrPanic
           else
             let c1 = (if len_s (buf c) = cap_s (buf c) then compact c else c);
                 (c2, i) = fill c1 (drop n b);
                 c3 = Broadcast c2;
                 n1 = n + i
             in if n1 = length b then WrReturn n1 None c3 else WrWait n1 alarm1 c3)
        else WrWait n alarm1 c)"

subsection \<open>The two halfConns of a connection pair\<close>

text \<open>
  \<open>NewConn\<close> allocates two \<open>halfConn\<close> objects \<open>a\<close> and \<open>b\<close> and stores pointers to
  both in both \<open>Conn\<close>s. The store \<open>pipe\<close> holds the two objects, \<open>hid\<close> is a
  pointer to one of them.
\<close>

datatype hid = HA | HB

record pipe =
  ha :: halfConn
  hb :: halfConn

fun get :: "hid \<Rightarrow> pipe \<Rightarrow> halfConn" where
  "get HA p = ha p"
| "get HB p = hb p"

fun put :: "hid \<Rightarrow> halfConn \<Rightarrow> pipe \<Rightarrow> pipe" where
  "put HA c p = p\<lparr>ha := c\<rparr>"
| "put HB c p = p\<lparr>hb := c\<rparr>"

text \<open>
  The \<open>for\<close> loops of \<open>read\<close> and \<open>write\<close>. \<open>c.Wait()\<close> releases the mutex until a
  \<open>Broadcast\<close>; what the other goroutines do to the pair in the meantime, and the
  clock reading of the next \<open>Timeout()\<close>, is one element of the list \<open>ws\<close>. When the
  list is used up the call is still blocked in \<open>Wait\<close>. A call never blocks iff it
  is done for every list, the empty one included. The deferred \<open>alarm.Stop()\<close> only
  discards the timer, which is local to the call.
\<close>

type_synonym wake = "time \<times> (pipe \<Rightarrow> pipe)"

datatype rd_result =
  ReadDone nat "error option" "byte list" pipe
| ReadBlocked netTimer pipe
| ReadPanic

fun read_loop :: "hid \<Rightarrow> netTimer \<Rightarrow> time \<Rightarrow> byte list \<Rightarrow> string \<Rightarrow> wake list \<Rightarrow> pipe \<Rightarrow> rd_result" where
  "read_loop h alarm clk b a [] p =
     (case read_switch alarm clk b a (get h p) of
        RdReturn n err b1 c1 \<Rightarrow> ReadDone n err b1 (put h c1 p)
      | RdWait alarm1 c1 \<Rightarrow> ReadBlocked (snd (netTimer_Schedule alarm1)) (put h c1 p)
      | RdPanic \<Rightarrow> ReadPanic)"
| "read_loop h alarm clk b a (w # ws) p =
     (case read_switch alarm clk b a (get h p) of
        RdReturn n err b1 c1 \<Rightarrow> ReadDone n err b1 (put h c1 p)
      | RdWait alarm1 c1 \<Rightarrow>
          read_loop h (snd (netTimer_Schedule alarm1)) (fst w) b a ws (snd w (put h c1 p))
      | RdPanic \<Rightarrow> ReadPanic)"

text \<open>
  \<open>c.read(b, d, t, addr)\<close>: \<open>clk0\<close> is the clock reading of \<open>alarm.Set\<close>, \<open>clk1\<close> that
  of the first \<open>alarm.Timeout()\<close>.
\<close>

definition halfConn_read ::
  "hid \<Rightarrow> byte list \<Rightarrow> time \<Rightarrow> duration \<Rightarrow> string \<Rightarrow> time \<Rightarrow> time \<Rightarrow> wake list \<Rightarrow> pipe \<Rightarrow> rd_result" where
  "halfConn_read h b d t a clk0 clk1 ws p =
     read_loop h (netTimer_Set zero_netTimer d t clk0) clk1 b a ws p"

datatype wr_result =
  WriteDone nat "error option" pipe
| WriteBlocked nat netTimer pipe
| WritePanic

fun write_loop :: "hid \<Rightarrow> netTimer \<Rightarrow> time \<Rightarrow> byte list \<Rightarrow> string \<Rightarrow> nat \<Rightarrow> wake list \<Rightarrow> pipe \<Rightarrow> wr_result" where
  "write_loop h alarm clk b a n [] p =
     (case write_switch alarm clk b a n (get h p) of
        WrReturn n1 err c1 \<Rightarrow> WriteDone n1 err (put h c1 p)
      | WrWait n1 alarm1 c1 \<Rightarrow> WriteBlocked n1 (snd (netTimer_Schedule alarm1)) (put h c1 p)
      | WrPanic \<Rightarrow> WritePanic)"
| "write_loop h alarm clk b a n (w # ws) p =
     (case write_switch alarm clk b a n (get h p) of
        WrReturn n1 err c1 \<Rightarrow> WriteDone n1 err (put h c1 p)
      | WrWait n1 alarm1 c1 \<Rightarrow>
          write_loop h (snd (netTimer_Schedule alarm1)) (fst w) b a n1 ws (snd w (put h c1 p))
      | WrPanic \<Rightarrow> WritePanic)"

definition halfConn_write ::
  "hid \<Rightarrow> byte list \<Rightarrow> time \<Rightarrow> duration \<Rightarrow> string \<Rightarrow> time \<Rightarrow> time \<Rightarrow> wake list \<Rightarrow> pipe \<Rightarrow> wr_result" where
  "halfConn_write h b d t a clk0 clk1 ws p =
     write_loop h (netTimer_Set zero_netTimer d t clk0) clk1 b a 0 ws p"

subsection \<open>Conn\<close>

text \<open>
  \<open>type Conn struct { mu *sync.Mutex; r, w *halfConn; rd, wd time.Time; t time.Duration }\<close>.
  The mutex is what makes every pass through a \<open>switch\<close> above, and every method
  below, one atomic step on the pair.
\<close>

record Conn =
  r :: hid
  w :: hid
  rd :: time
  wd :: time
  t :: duration

definition NewConn :: "string \<Rightarrow> string \<Rightarrow> int \<Rightarrow> (Conn \<times> Conn) \<times> pipe" where
  "NewConn addrA addrB bufSize =
     (let bufSize1 = (if bufSize \<le> 0 then 4096 else bufSize)
      in ((\<lparr>r = HA, w = HB, rd = 0, wd = 0, t = 0\<rparr>,
           \<lparr>r = HB, w = HA, rd = 0, wd = 0, t = 0\<rparr>),
          \<lparr>ha = newHalfConn addrA (nat bufSize1), hb = newHalfConn addrB (nat bufSize1)\<rparr>))"

definition Conn_close :: "Conn \<Rightarrow> pipe \<Rightarrow> pipe" where
  "Conn_close c p =
     (if buf (get (r c) p) \<noteq> None then
        (let p1 = put (r c) ((get (r c) p)\<lparr>buf := None\<rparr>) p;
             p2 = put (r c) ((get (r c) p1)\<lparr>eof := True\<rparr>) p1;
             p3 = put (w c) ((get (w c) p2)\<lparr>eof := True\<rparr>) p2;
             p4 = put (r c) (Broadcast (get (r c) p3)) p3
         in put (w c) (Broadcast (get (w c) p4)) p4)
      else p)"

definition Conn_Close :: "Conn \<Rightarrow> pipe \<Rightarrow> error option \<times> pipe" where
  "Conn_Close c p = (None, Conn_close c p)"

definition Conn_Read :: "Conn \<Rightarrow> byte list \<Rightarrow> time \<Rightarrow> time \<Rightarrow> wake list \<Rightarrow> pipe \<Rightarrow> rd_result" where
  "Conn_Read c b clk0 clk1 ws p =
     (case halfConn_read (r c) b (rd c) (t c) (addr (get (r c) p)) clk0 clk1 ws p of
        ReadDone n err b1 p1 \<Rightarrow>
          (if err = Some EOF then ReadDone n err b1 (Conn_close c p1) else ReadDone n err b1 p1)
      | ReadBlocked alarm p1 \<Rightarrow> ReadBlocked alarm p1
      | ReadPanic \<Rightarrow> ReadPanic)"

definition Conn_Write :: "Conn \<Rightarrow> byte list \<Rightarrow> time \<Rightarrow> time \<Rightarrow> wake list \<Rightarrow> pipe \<Rightarrow> wr_result" where
  "Conn_Write c b clk0 clk1 ws p =
     halfConn_write (w c) b (wd c) (t c) (addr (get (r c) p)) clk0 clk1 ws p"

definition Conn_Clear :: "Conn \<Rightarrow> pipe \<Rightarrow> pipe" where
  "Conn_Clear c p =
     (let p1 = put (r c) ((get (r c) p)\<lparr>buf := reslice (buf (get (r c) p)) 0\<rparr>) p;
          p2 = put (w c) ((get (w c) p1)\<lparr>buf := reslice (buf (get (w c) p1)) 0\<rparr>) p1;
          p3 = put (r c) ((get (r c) p2)\<lparr>off := 0\<rparr>) p2;
          p4 = put (w c) ((get (w c) p3)\<lparr>off := 0\<rparr>) p3;
          p5 = put (r c) (Broadcast (get (r c) p4)) p4
      in put (w c) (Broadcast (get (w c) p5)) p5)"

definition Conn_deadline :: "Conn \<Rightarrow> time \<Rightarrow> bool \<Rightarrow> bool \<Rightarrow> error option \<times> Conn" where
  "Conn_deadline c d rr ww =
     (let c1 = (if rr then c\<lparr>rd := d\<rparr> else c);
          c2 = (if ww then c1\<lparr>wd := d\<rparr> else c1)
      in (None, c2))"

definition Conn_SetTimeout :: "Conn \<Rightarrow> duration \<Rightarrow> Conn" where
  "Conn_SetTimeout c d = c\<lparr>t := d\<rparr>"

subsection \<open>Invariants and call sequences\<close>

text \<open>
  The invariant of the data model, \<open>0 \<le> offset \<le> length(buffer) \<le> capacity\<close>, and
  the one that also holds once \<open>close\<close> has released the buffer: \<open>close\<close> sets
  \<open>buf\<close> to \<open>nil\<close> and \<open>eof\<close>, and leaves \<open>off\<close> as it is.
\<close>

definition hc_inv :: "halfConn \<Rightarrow> bool" where
  "hc_inv c = (0 \<le> off c \<and> off c \<le> int (len_s (buf c)) \<and> len_s (buf c) \<le> cap_s (buf c))"

definition hc_inv_released :: "halfConn \<Rightarrow> bool" where
  "hc_inv_released c =
     (0 \<le> off c \<and> len_s (buf c) \<le> cap_s (buf c) \<and>
      (if buf c = None then eof c else off c \<le> int (len_s (buf c))))"

text \<open>The state a pass through a \<open>switch\<close> leaves behind; none after a panic.\<close>

fun rd_after :: "rd_step \<Rightarrow> halfConn option" where
  "rd_after (RdReturn n err b c) = Some c"
| "rd_after (RdWait alarm c) = Some c"
| "rd_after RdPanic = None"

fun wr_after :: "wr_step \<Rightarrow> halfConn option" where
  "wr_after (WrReturn n err c) = Some c"
| "wr_after (WrWait n alarm c) = Some c"
| "wr_after WrPanic = None"

text \<open>
  What holds of every halfConn that \<open>NewConn\<close> made, whatever was called since: the
  unread bytes \<open>buf[off:]\<close> are not empty unless the buffer is, and a released buffer
  has \<open>eof\<close> set. On the pair, a released buffer means \<open>eof\<close> on both halves.
\<close>

definition unread :: "halfConn \<Rightarrow> byte list" where
  "unread c = drop (nat (off c)) (elems (buf c))"

definition hc_ok :: "halfConn \<Rightarrow> bool" where
  "hc_ok c =
     (case buf c of
        None \<Rightarrow> eof c \<and> 0 \<le> off c
      | Some s \<Rightarrow> len s \<le> length (arr s) \<and>
          ((off c = 0 \<and> len s = 0) \<or> (0 \<le> off c \<and> off c < int (len s))))"

definition pipe_ok :: "pipe \<Rightarrow> bool" where
  "pipe_ok p =
     (hc_ok (ha p) \<and> hc_ok (hb p) \<and>
      (if buf (ha p) = None \<or> buf (hb p) = None then eof (ha p) \<and> eof (hb p) else True))"

text \<open>The two endpoints that \<open>NewConn\<close> returns, with any deadlines and timeout.\<close>

definition endpoint :: "Conn \<Rightarrow> bool" where
  "endpoint c = ((r c = HA \<and> w c = HB) \<or> (r c = HB \<and> w c = HA))"

text \<open>\<open>alarm.Timeout()\<close> of the first pass of a call with deadline \<open>d\<close> and timeout \<open>tmo\<close>.\<close>

definition expired :: "time \<Rightarrow> duration \<Rightarrow> time \<Rightarrow> time \<Rightarrow> bool" where
  "expired d tmo clk0 clk1 = fst (netTimer_Timeout (netTimer_Set zero_netTimer d tmo clk0) clk1)"

text \<open>
  A goroutine that makes one \<open>Write\<close> call after the other while no other goroutine
  touches the pair: each call is given its bytes and its two clock readings. A call
  that blocks stays blocked, so the sequence has no result (\<open>None\<close>). \<open>read_all\<close> is
  the same for \<open>Read\<close>; each call is given its destination.
\<close>

fun write_all :: "Conn \<Rightarrow> (byte list \<times> time \<times> time) list \<Rightarrow> pipe \<Rightarrow> ((nat \<times> error option) list \<times> pipe) option" where
  "write_all c [] p = Some ([], p)"
| "write_all c (x # xs) p =
     (case Conn_Write c (fst x) (fst (snd x)) (snd (snd x)) [] p of
        WriteDone n err p1 \<Rightarrow>
          (case write_all c xs p1 of
             None \<Rightarrow> None
           | Some (rs, p2) \<Rightarrow> Some ((n, err) # rs, p2))
      | WriteBlocked n alarm p1 \<Rightarrow> None
      | WritePanic \<Rightarrow> None)"

fun read_all :: "Conn \<Rightarrow> (byte list \<times> time \<times> time) list \<Rightarrow> pipe \<Rightarrow> ((nat \<times> error option \<times> byte list) list \<times> pipe) option" where
  "read_all c [] p = Some ([], p)"
| "read_all c (x # xs) p =
     (case Conn_Read c (fst x) (fst (snd x)) (snd (snd x)) [] p of
        ReadDone n err b1 p1 \<Rightarrow>
          (case read_all c xs p1 of
             None \<Rightarrow> None
           | Some (rs, p2) \<Rightarrow> Some ((n, err, b1) # rs, p2))
      | ReadBlocked alarm p1 \<Rightarrow> None
      | ReadPanic \<Rightarrow> None)"

text \<open>The bytes the reads returned: the first \<open>n\<close> bytes of each destination, in order.\<close>

definition received :: "(nat \<times> error option \<times> byte list) list \<Rightarrow> byte list" where
  "received rs = concat (map (\<lambda>x. take (fst x) (snd (snd x))) rs)"

definition written :: "(byte list \<times> time \<times> time) list \<Rightarrow> byte list" where
  "written xs = concat (map fst xs)"

definition capacity :: "int \<Rightarrow> nat" where
  "capacity bufSize = nat (if bufSize \<le> 0 then 4096 else bufSize)"

section \<open>The scripted server of mock.go\<close>

text \<open>
  The value of \<open>fmt.Sprintf(format, args...)\<close> is kept as the term \<open>Sprintf format args\<close>:
  the formatting itself is the standard library's. \<open>Lit\<close> is a string literal of the
  source.
\<close>

datatype arg = IntArg nat | StrArg string | BytesArg "byte list" | ErrorArg "error option" | ValueArg gostring | TypeArg string
and gostring = Lit string | Sprintf gostring "arg list"

text \<open>
  A channel of \<open>interface{}\<close> values; the values sent here are \<open>nil\<close> or the string that
  \<open>panicf\<close> raised. \<open>sent\<close> counts the sends that the channel has accepted.
\<close>

type_synonym outcome = "gostring option"

record chan =
  queue :: "outcome list"
  chan_cap :: nat
  closed :: bool
  sent :: nat

definition make_chan :: "nat \<Rightarrow> chan" where
  "make_chan n = \<lparr>queue = [], chan_cap = n, closed = False, sent = 0\<rparr>"

datatype chan_step = ChanDone chan | ChanBlocks | ChanPanics

text \<open>\<open>ch <- v\<close> with no receiver waiting, and \<open>close(ch)\<close>.\<close>

definition chan_send :: "outcome \<Rightarrow> chan \<Rightarrow> chan_step" where
  "chan_send v c =
     (if closed c then ChanPanics
      else if length (queue c) < chan_cap c
        then ChanDone (c\<lparr>queue := queue c @ [v], sent := Suc (sent c)\<rparr>)
      else ChanBlocks)"

definition chan_close :: "chan \<Rightarrow> chan_step" where
  "chan_close c = (if closed c then ChanPanics else ChanDone (c\<lparr>closed := True\<rparr>))"

text \<open>
  \<open>v, ok := <-ch\<close>. A \<open>nil\<close> channel (\<open>None\<close>) blocks for ever; an open, empty one
  blocks until a send or a close.
\<close>

datatype recv_step = Recv outcome bool chan | RecvWaits | RecvNil

definition chan_recv :: "chan option \<Rightarrow> recv_step" where
  "chan_recv ch =
     (case ch of
        None \<Rightarrow> RecvNil
      | Some c \<Rightarrow>
          (case queue c of
             v # q \<Rightarrow> Recv v True (c\<lparr>queue := q\<rparr>)
           | [] \<Rightarrow> if closed c then Recv None False c else RecvWaits))"

text \<open>
  The \<open>imap.MockServer\<close> interface value \<open>t.s\<close>: its state is of type \<open>'s\<close>, and the
  methods that the script calls are the fields of \<open>MockServer\<close>. \<open>ReadFull n\<close> is
  \<open>io.ReadFull(t.s, b)\<close> for \<open>b\<close> of length \<open>n\<close>, and returns \<open>b\<close>.
\<close>

record 's MockServer =
  WriteLine :: "byte list \<Rightarrow> 's \<Rightarrow> error option \<times> 's"
  ReadLine :: "'s \<Rightarrow> (byte list \<times> error option) \<times> 's"
  Write :: "byte list \<Rightarrow> 's \<Rightarrow> (nat \<times> error option) \<times> 's"
  ReadFull :: "nat \<Rightarrow> 's \<Rightarrow> (byte list \<times> error option) \<times> 's"
  Flush :: "'s \<Rightarrow> error option \<times> 's"

text \<open>
  A script action is a Go value of any type; the type switch of \<open>script\<close> tells
  \<open>string\<close>, \<open>Send\<close>, \<open>Recv\<close>, \<open>ScriptFunc\<close> and \<open>func(s imap.MockServer) error\<close>
  from the rest, of which only the type's name is kept.
\<close>

datatype 's action =
  String string
| Send "byte list"
| Recv_action "byte list"
| ScriptFunc "'s \<Rightarrow> error option \<times> 's"
| Func "'s \<Rightarrow> error option \<times> 's"
| Other string

text \<open>
  \<open>panicf\<close> panics with the formatted string. A function that may panic returns the
  panic's value, or \<open>None\<close> when it returns normally.
\<close>

definition panicf :: "string \<Rightarrow> arg list \<Rightarrow> gostring" where
  "panicf format v = Sprintf (Lit format) v"

definition T_flush :: "'s MockServer \<Rightarrow> nat \<Rightarrow> arg \<Rightarrow> error option \<Rightarrow> 's \<Rightarrow> gostring option \<times> 's" where
  "T_flush m ln v err s =
     (let (err1, s1) = (if err = None then Flush m s else (err, s))
      in if err1 \<noteq> None
         then (Some (panicf ''[#%d] %+q write error: %v'' [IntArg ln, v, ErrorArg err1]), s1)
         else (None, s1))"

definition T_compare :: "nat \<Rightarrow> string \<Rightarrow> string \<Rightarrow> error option \<Rightarrow> gostring option" where
  "T_compare ln v b err =
     (if v \<noteq> b \<or> err \<noteq> None
      then Some (panicf ''[#%d] expected %+q; got %+q (%v)'' [IntArg ln, StrArg v, StrArg b, ErrorArg err])
      else None)"

definition T_run :: "nat \<Rightarrow> ('s \<Rightarrow> error option \<times> 's) \<Rightarrow> 's \<Rightarrow> gostring option \<times> 's" where
  "T_run ln f s =
     (let (err, s1) = f s
      in if err \<noteq> None
         then (Some (panicf ''[#%d] ScriptFunc error: %v'' [IntArg ln, ErrorArg err]), s1)
         else (None, s1))"

definition HasPrefix :: "string \<Rightarrow> string \<Rightarrow> bool" where
  "HasPrefix s prefix = (length prefix \<le> length s \<and> take (length prefix) s = prefix)"

definition HasSuffix :: "string \<Rightarrow> string \<Rightarrow> bool" where
  "HasSuffix s suffix =
     (length suffix \<le> length s \<and> drop (length s - length suffix) s = suffix)"

text \<open>The body of the \<open>switch\<close> of \<open>script\<close> for the action \<open>v\<close>; \<open>ln\<close> is already incremented.\<close>

fun script_action :: "'s MockServer \<Rightarrow> nat \<Rightarrow> 's action \<Rightarrow> 's \<Rightarrow> gostring option \<times> 's" where
  \<open>script_action m ln (String v) s =
     (if HasPrefix v ''S: '' then
        (let (err, s1) = WriteLine m (drop 3 v) s in T_flush m ln (StrArg v) err s1)
      else if HasPrefix v ''C: '' then
        (let ((b, err), s1) = ReadLine m s in (T_compare ln (drop 3 v) b err, s1))
      else (Some (panicf ''[#%d] %+q must be prefixed with "S: " or "C: "'' [IntArg ln, StrArg v]), s))\<close>
| "script_action m ln (Send v) s =
     (let ((n, err), s1) = Write m v s in T_flush m ln (BytesArg v) err s1)"
| "script_action m ln (Recv_action v) s =
     (let ((b, err), s1) = ReadFull m (length v) s in (T_compare ln v b err, s1))"
| "script_action m ln (ScriptFunc f) s = T_run ln f s"
| "script_action m ln (Func f) s = T_run ln f s"
| "script_action m ln (Other ty) s =
     (Some (panicf ''[#%d] %T is not a valid script action'' [IntArg ln, TypeArg ty]), s)"

text \<open>
  The \<open>for ln, v := range script\<close> loop from index \<open>ln\<close> on: a panic ends it. The result
  is what \<open>recover()\<close> returns in the deferred function.
\<close>

fun script_loop :: "'s MockServer \<Rightarrow> nat \<Rightarrow> 's action list \<Rightarrow> 's \<Rightarrow> outcome \<times> 's" where
  "script_loop m ln [] s = (None, s)"
| "script_loop m ln (v # vs) s =
     (case script_action m (ln + 1) v s of
        (Some e, s1) \<Rightarrow> (Some e, s1)
      | (None, s1) \<Rightarrow> script_loop m (ln + 1) vs s1)"

text \<open>
  \<open>t.script(script, ch)\<close>: the loop, then the deferred \<open>ch <- recover(); close(ch)\<close>.
\<close>

definition T_script :: "'s MockServer \<Rightarrow> 's action list \<Rightarrow> chan \<Rightarrow> 's \<Rightarrow> chan_step \<times> 's" where
  "T_script m script c s =
     (let (e, s1) = script_loop m 0 script s
      in (case chan_send e c of
            ChanDone c1 \<Rightarrow> chan_close c1
          | ChanBlocks \<Rightarrow> ChanBlocks
          | ChanPanics \<Rightarrow> ChanPanics, s1))"

text \<open>
  The part of \<open>T\<close> that \<open>Script\<close> and \<open>Join\<close> use: the channel \<open>ch\<close>, and of the embedded
  \<open>*testing.T\<close> the failed flag and the logged messages. \<open>Errorf\<close> logs and marks the
  test failed; \<open>Fatalf\<close> does the same and then ends the test's goroutine
  (\<open>FailNow\<close>), as \<open>Fatal\<close> does with its argument for the message.
\<close>

record T =
  failed :: bool
  logged :: "gostring list"
  ch :: "chan option"

definition Errorf :: "gostring \<Rightarrow> arg list \<Rightarrow> T \<Rightarrow> T" where
  "Errorf format v x = x\<lparr>logged := logged x @ [Sprintf format v], failed := True\<rparr>"

definition Fatal :: "gostring \<Rightarrow> T \<Rightarrow> T" where
  "Fatal v x = x\<lparr>logged := logged x @ [v], failed := True\<rparr>"

text \<open>\<open>cl(s)\<close>; \<open>caller\<close> is the file and line of \<open>runtime.Caller(2)\<close> when that is \<open>ok\<close>.\<close>

definition cl :: "(string \<times> nat) option \<Rightarrow> string \<Rightarrow> gostring" where
  "cl caller s =
     (case caller of
        Some (testFile, line) \<Rightarrow>
          if HasSuffix testFile ''_test.go''
          then Sprintf (Lit ''%d: %s'') [IntArg line, StrArg s] else Lit s
      | None \<Rightarrow> Lit s)"

text \<open>
  \<open>t.Script(script...)\<close> up to the \<open>go\<close> statement: it ends the test when the channel of
  the last run is still open and empty, and installs a new channel otherwise.
\<close>

datatype script_start = Started T | ScriptFailNow T

definition T_Script :: "(string \<times> nat) option \<Rightarrow> T \<Rightarrow> script_start" where
  "T_Script caller x =
     (case chan_recv (ch x) of
        Recv e ok c1 \<Rightarrow> Started (x\<lparr>ch := Some (make_chan 1)\<rparr>)
      | RecvWaits \<Rightarrow>
          ScriptFailNow (Fatal (cl caller ''t.Script() called while another script is active'') x)
      | RecvNil \<Rightarrow> Started (x\<lparr>ch := Some (make_chan 1)\<rparr>))"

text \<open>
  \<open>t.Join(err)\<close> returns, ends the test (\<open>Fatalf\<close>, \<open>FailNow\<close>), waits for the script
  to finish, or blocks for ever on a \<open>nil\<close> channel.
\<close>

datatype join_result = JoinReturns T | JoinFailNow T | JoinWaits | JoinBlocksForever

definition Join_tail :: "(string \<times> nat) option \<Rightarrow> error option \<Rightarrow> T \<Rightarrow> join_result" where
  "Join_tail caller err x =
     (let x1 = (if err \<noteq> None then Errorf (cl caller ''t.Join() C: %v'') [ErrorArg err] x else x)
      in if failed x1 then JoinFailNow x1 else JoinReturns x1)"

definition T_Join :: "(string \<times> nat) option \<Rightarrow> error option \<Rightarrow> T \<Rightarrow> join_result" where
  "T_Join caller err x =
     (case chan_recv (ch x) of
        RecvNil \<Rightarrow> JoinBlocksForever
      | RecvWaits \<Rightarrow> JoinWaits
      | Recv e ok c1 \<Rightarrow>
          (let x0 = x\<lparr>ch := Some c1\<rparr>
           in case e of
                Some v \<Rightarrow> Join_tail caller err (Errorf (cl caller ''t.Join() S: %v'') [ValueArg v] x0)
              | None \<Rightarrow>
                  if \<not> ok
                  then JoinFailNow (Errorf (cl caller ''t.Join() called without an active script'') [] x0)
                  else Join_tail caller err x0))"

section \<open>EnableTLS of imap/server.go\<close>

text \<open>
  \<open>mockServer\<close> embeds a \<open>*transport\<close>, whose declaration is in a file of package \<open>imap\<close>
  that is not part of this development. \<open>EnableTLS\<close> uses its fields \<open>conn\<close>, \<open>cmpLink\<close>
  and \<open>bufLink\<close> and its methods \<open>Encrypted\<close> and \<open>Compressed\<close>; the types of the
  fields are parameters (\<open>'c\<close>, \<open>'l\<close>), and so are the two methods, \<open>tls.Server\<close>, the
  outcome of \<open>Handshake\<close> and \<open>Attach\<close>, collected in \<open>tls_env\<close>. The method returns
  the error, the transport, and the calls it made in order.
\<close>

record ('c, 'l) transport =
  conn :: 'c
  bufLink :: 'l
  cmpLink :: 'l

record ('c, 'l, 'g) tls_env =
  Encrypted :: "('c, 'l) transport \<Rightarrow> bool"
  Compressed :: "('c, 'l) transport \<Rightarrow> bool"
  tls_Server :: "'c \<Rightarrow> 'g \<Rightarrow> 'c"
  Handshake :: "'c \<Rightarrow> error option"
  Attach :: "'l \<Rightarrow> 'c \<Rightarrow> 'c \<Rightarrow> 'l"

datatype tls_call = Call_Server | Call_Handshake | Call_cmpLink_Attach | Call_bufLink_Attach

definition mockServer_EnableTLS ::
  "('c, 'l, 'g) tls_env \<Rightarrow> 'g \<Rightarrow> ('c, 'l) transport \<Rightarrow> error option \<times> ('c, 'l) transport \<times> tls_call list" where
  "mockServer_EnableTLS e config x =
     (if Encrypted e x then (Some ErrEncryptionActive, x, [])
      else
        let cn = tls_Server e (conn x) config;
            err = Handshake e cn
        in if err = None then
             (let x1 = x\<lparr>conn := cn\<rparr>
              in if Compressed e x1
                 then (err, x1\<lparr>cmpLink := Attach e (cmpLink x1) cn cn\<rparr>,
                       [Call_Server, Call_Handshake, Call_cmpLink_Attach])
                 else (err, x1\<lparr>bufLink := Attach e (bufLink x1) cn cn\<rparr>,
                       [Call_Server, Call_Handshake, Call_bufLink_Attach]))
           else (err, x, [Call_Server, Call_Handshake]))"

text \<open>
  Two descriptions of the halfConn \<open>h\<close> of a pair, used for the sequences above: while
  it is being filled it holds the bytes \<open>D\<close> from offset 0 in a buffer of capacity
  \<open>cp\<close>; while it is being drained its unread bytes are \<open>U\<close>. In both the writer has
  not closed.
\<close>

definition filling :: "hid \<Rightarrow> nat \<Rightarrow> byte list \<Rightarrow> pipe \<Rightarrow> bool" where
  "filling h cp D p =
     (case buf (get h p) of
        None \<Rightarrow> False
      | Some s \<Rightarrow> length (arr s) = cp \<and> len s = length D \<and> take (len s) (arr s) = D \<and>
          off (get h p) = 0 \<and> \<not> eof (get h p))"

definition draining :: "hid \<Rightarrow> byte list \<Rightarrow> pipe \<Rightarrow> bool" where
  "draining h U p =
     (hc_ok (get h p) \<and> buf (get h p) \<noteq> None \<and> \<not> eof (get h p) \<and> unread (get h p) = U)"


section \<open>Concrete inputs\<close>

text \<open>
  A connection pair with four-byte buffers, a server that reads its input lines from a
  list and collects what it is given to write, a \<open>T\<close> on which \<open>Script\<close> was never
  called, the channel a successful run leaves behind, and a transport environment
  in which a connection is the number of TLS layers around the plain one.
\<close>

definition client_conn :: Conn where
  "client_conn = fst (fst (NewConn ''client'' ''server'' 4))"

definition server_conn :: Conn where
  "server_conn = snd (fst (NewConn ''client'' ''server'' 4))"

definition new_pipe :: pipe where
  "new_pipe = snd (NewConn ''client'' ''server'' 4)"

definition line_server :: "(string list \<times> string list) MockServer" where
  "line_server =
     \<lparr>WriteLine = (\<lambda>b s. (None, (fst s, snd s @ [b]))),
      ReadLine = (\<lambda>s. case fst s of
                         [] \<Rightarrow> (([], Some EOF), s)
                       | l # ls \<Rightarrow> ((l, None), (ls, snd s))),
      Write = (\<lambda>b s. ((length b, None), (fst s, snd s @ [b]))),
      ReadFull = (\<lambda>n s. case fst s of
                           [] \<Rightarrow> ((replicate n (CHR 0x00), Some EOF), s)
                         | l # ls \<Rightarrow> ((take n l, None), (ls, snd s))),
      Flush = (\<lambda>s. (None, s))\<rparr>"

definition fresh_T :: T where
  "fresh_T = \<lparr>failed = False, logged = [], ch = None\<rparr>"

definition done_chan :: chan where
  "done_chan = \<lparr>queue = [None], chan_cap = 1, closed = True, sent = 1\<rparr>"

definition layer_env :: "(nat, nat list, unit) tls_env" where
  "layer_env =
     \<lparr>Encrypted = (\<lambda>x. 0 < conn x),
      Compressed = (\<lambda>x. cmpLink x \<noteq> []),
      tls_Server = (\<lambda>c g. Suc c),
      Handshake = (\<lambda>c. None),
      Attach = (\<lambda>l c c'. [c, c'])\<rparr>"

section \<open>Basic facts\<close>

lemmas ex_defs = client_conn_def server_conn_def new_pipe_def NewConn_def
  newHalfConn_def make_bytes_def

lemmas time_defs = IsZero_def Before_def After_def Add_def Sub_def

lemma get_put_same [simp]: "get h (put h c p) = c"
  by (cases h) simp_all

lemma put_get_same [simp]: "put h (get h p) p = p"
  by (cases h) simp_all

lemma put_put_same [simp]: "put h c (put h c' p) = put h c p"
  by (cases h) simp_all

lemma read_loop_return:
  "read_switch alarm clk b a (get h p) = RdReturn n err b1 c1 \<Longrightarrow>
   read_loop h alarm clk b a ws p = ReadDone n err b1 (put h c1 p)"
  by (cases ws) simp_all

lemma write_loop_return:
  "write_switch alarm clk b a n (get h p) = WrReturn n1 err c1 \<Longrightarrow>
   write_loop h alarm clk b a n ws p = WriteDone n1 err (put h c1 p)"
  by (cases ws) simp_all

lemma Timeout_expired:
  "fst (netTimer_Timeout al clk) = (tend al \<noteq> 0 \<and> tend al \<le> clk)"
  by (auto simp: netTimer_Timeout_def time_defs Let_def)

lemma Conn_close_released: "buf (get (r c) (Conn_close c p)) = None"
  apply (simp add: Conn_close_def Let_def Broadcast_def)
  apply (cases "r c"; cases "w c"; simp)
  done

lemma script_loop_append:
  "script_loop m ln vs s = (None, s1) \<Longrightarrow>
   script_loop m ln (vs @ vs') s = script_loop m (ln + length vs) vs' s1"
  by (induction vs arbitrary: ln s) (auto split: prod.splits option.splits)

lemma T_script_outcome:
  "script_loop m 0 script s = (e, s1) \<Longrightarrow>
   T_script m script (make_chan 1) s =
     (ChanDone \<lparr>queue = [e], chan_cap = 1, closed = True, sent = 1\<rparr>, s1)"
  by (simp add: T_script_def chan_send_def chan_close_def make_chan_def)

lemmas script_defs = line_server_def T_flush_def T_compare_def T_run_def HasPrefix_def panicf_def

subsection \<open>The slice operations and the two switches\<close>

lemmas slice_defs = len_s_def cap_s_def elems_def reslice_def copy_into_def copy_def

lemma compact_Some:
  assumes "buf c = Some s" "0 \<le> off c" "off c \<le> int (len s)" "len s \<le> length (arr s)"
  shows "compact c = c\<lparr>buf := Some \<lparr>arr = drop (nat (off c)) (take (len s) (arr s)) @ drop (len s - nat (off c)) (arr s),
                                     len = len s - nat (off c)\<rparr>, off := 0\<rparr>"
  using assms by (simp add: compact_def slice_defs Let_def min_def)

lemma fill_Some:
  assumes "buf c = Some s" "len s \<le> length (arr s)"
  shows "fill c src =
     (c\<lparr>buf := Some \<lparr>arr = take (len s) (arr s) @ take (min (length (arr s) - len s) (length src)) src
                        @ drop (len s + min (length (arr s) - len s) (length src)) (arr s),
                      len = len s + min (length (arr s) - len s) (length src)\<rparr>\<rparr>,
      min (length (arr s) - len s) (length src))"
  using assms by (simp add: fill_def slice_defs Let_def)

lemma fill_None: "buf c = None \<Longrightarrow> fill c src = (c, 0)"
  by (simp add: fill_def slice_defs)

lemma read_switch_released:
  "buf c = None \<Longrightarrow> read_switch al clk b a c = RdReturn 0 (Some EOF) b c"
  by (simp add: read_switch_def)

lemma read_switch_expired:
  "buf c \<noteq> None \<Longrightarrow> fst (netTimer_Timeout al clk) \<Longrightarrow>
   read_switch al clk b a c = RdReturn 0 (Some (netTimeout (''mock('' @ a @ ''): read timeout''))) b c"
  by (simp add: read_switch_def case_prod_beta)

lemma read_switch_empty_dest:
  "buf c \<noteq> None \<Longrightarrow> \<not> fst (netTimer_Timeout al clk) \<Longrightarrow>
   read_switch al clk [] a c = RdReturn 0 None [] c"
  by (simp add: read_switch_def case_prod_beta)

lemma read_switch_wait:
  "buf c \<noteq> None \<Longrightarrow> \<not> fst (netTimer_Timeout al clk) \<Longrightarrow> b \<noteq> [] \<Longrightarrow> len_s (buf c) = 0 \<Longrightarrow>
   read_switch al clk b a c = RdWait (snd (netTimer_Timeout al clk)) c"
  by (simp add: read_switch_def case_prod_beta)

lemma read_switch_data:
  assumes "buf c = Some s" "\<not> fst (netTimer_Timeout al clk)" "b \<noteq> []" "0 < len s"
    "0 \<le> off c" "off c \<le> int (len s)" "len s \<le> length (arr s)"
  shows "read_switch al clk b a c =
     (let n = min (length b) (length (unread c)) in
      RdReturn n (if nat (off c) + n = len s \<and> eof c then Some EOF else None)
        (take n (unread c) @ drop n b)
        (if nat (off c) + n = len s
         then c\<lparr>Cond := Suc (Cond c), buf := Some (s\<lparr>len := 0\<rparr>), off := 0\<rparr>
         else c\<lparr>Cond := Suc (Cond c), off := off c + int n\<rparr>))"
  using assms
  by (auto simp: read_switch_def case_prod_beta unread_def slice_defs Let_def Broadcast_def min_def)

lemma write_switch_eof:
  "eof c \<Longrightarrow> write_switch al clk b a n c = WrReturn n (Some EOF) c"
  by (simp add: write_switch_def)

lemma write_switch_expired:
  "\<not> eof c \<Longrightarrow> fst (netTimer_Timeout al clk) \<Longrightarrow>
   write_switch al clk b a n c = WrReturn n (Some (netTimeout (''mock('' @ a @ ''): write timeout''))) c"
  by (simp add: write_switch_def case_prod_beta)

lemma write_switch_empty_src:
  "\<not> eof c \<Longrightarrow> \<not> fst (netTimer_Timeout al clk) \<Longrightarrow>
   write_switch al clk [] a n c = WrReturn n None c"
  by (simp add: write_switch_def case_prod_beta)

lemma write_switch_full:
  "\<not> eof c \<Longrightarrow> \<not> fst (netTimer_Timeout al clk) \<Longrightarrow> b \<noteq> [] \<Longrightarrow>
   \<not> int (len_s (buf c)) - off c < int (cap_s (buf c)) \<Longrightarrow>
   write_switch al clk b a n c = WrWait n (snd (netTimer_Timeout al clk)) c"
  by (simp add: write_switch_def case_prod_beta)

lemma write_switch_room:
  assumes "\<not> eof c" "\<not> fst (netTimer_Timeout al clk)" "b \<noteq> []"
    "int (len_s (buf c)) - off c < int (cap_s (buf c))"
    "\<not> (len_s (buf c) = cap_s (buf c) \<and> (off c < 0 \<or> int (len_s (buf c)) < off c))"
  shows "write_switch al clk b a n c =
     (let c1 = (if len_s (buf c) = cap_s (buf c) then compact c else c);
          c2 = fst (fill c1 (drop n b)); i = snd (fill c1 (drop n b))
      in if n + i = length b then WrReturn (n + i) None (Broadcast c2)
         else WrWait (n + i) (snd (netTimer_Timeout al clk)) (Broadcast c2))"
  using assms by (simp add: write_switch_def case_prod_beta Let_def)

lemma write_switch_fits:
  assumes "buf c = Some s" "\<not> eof c" "\<not> fst (netTimer_Timeout al clk)" "b \<noteq> []"
    "len s + length b \<le> length (arr s)" "0 \<le> off c"
  shows "write_switch al clk b a 0 c =
     WrReturn (length b) None
       (c\<lparr>Cond := Suc (Cond c),
          buf := Some \<lparr>arr = take (len s) (arr s) @ b @ drop (len s + length b) (arr s),
                       len = len s + length b\<rparr>\<rparr>)"
proof -
  have 1: "int (len_s (buf c)) - off c < int (cap_s (buf c))"
    using assms(1,4,5,6) by (cases b) (simp_all add: slice_defs)
  have 3: "len_s (buf c) \<noteq> cap_s (buf c)"
    using assms(1,4,5,6) by (cases b) (simp_all add: slice_defs)
  have 2: "min (length (arr s) - len s) (length b) = length b"
    using assms by simp
  show ?thesis
    using assms(1-4) 1 3 fill_Some [of c s b] assms(5)
    by (simp add: write_switch_room Let_def 2 Broadcast_def)
qed

subsection \<open>Writes that fit, and the reads after them\<close>

lemma Write_filling:
  assumes "filling (w c) cp D p" "\<not> expired (wd c) (t c) clk0 clk1" "length D + length b \<le> cp"
  shows "\<exists>p1. Conn_Write c b clk0 clk1 ws p = WriteDone (length b) None p1 \<and> filling (w c) cp (D @ b) p1"
proof -
  let ?h = "get (w c) p"
  let ?al = "netTimer_Set zero_netTimer (wd c) (t c) clk0"
  obtain s where s: "buf ?h = Some s" "length (arr s) = cp" "len s = length D"
      "take (len s) (arr s) = D" "off ?h = 0" "\<not> eof ?h"
    using assms(1) by (auto simp: filling_def split: option.splits)
  have ne: "\<not> fst (netTimer_Timeout ?al clk1)"
    using assms(2) by (simp add: expired_def)
  show ?thesis
  proof (cases "b = []")
    case True
    have "write_switch ?al clk1 [] (addr (get (r c) p)) 0 ?h = WrReturn 0 None ?h"
      using s ne by (simp add: write_switch_empty_src)
    from write_loop_return [OF this, of ws] True assms(1) show ?thesis
      by (simp add: Conn_Write_def halfConn_write_def)
  next
    case False
    have "write_switch ?al clk1 b (addr (get (r c) p)) 0 ?h =
       WrReturn (length b) None
         (?h\<lparr>Cond := Suc (Cond ?h),
            buf := Some \<lparr>arr = take (len s) (arr s) @ b @ drop (len s + length b) (arr s),
                         len = len s + length b\<rparr>\<rparr>)"
      using s ne False assms(3) by (intro write_switch_fits) simp_all
    from write_loop_return [OF this, of ws] s assms(3) show ?thesis
      by (simp add: Conn_Write_def halfConn_write_def filling_def)
  qed
qed

lemma write_all_filling:
  assumes "filling (w c) cp D p"
    "\<forall>x\<in>set xs. \<not> expired (wd c) (t c) (fst (snd x)) (snd (snd x))"
    "length D + length (written xs) \<le> cp"
  shows "\<exists>p1. write_all c xs p = Some (map (\<lambda>x. (length (fst x), None)) xs, p1) \<and>
              filling (w c) cp (D @ written xs) p1"
  using assms
proof (induction xs arbitrary: D p)
  case Nil
  then show ?case by (simp add: written_def)
next
  case (Cons x xs)
  have "length D + length (fst x) \<le> cp"
    using Cons.prems(3) by (simp add: written_def)
  with Cons.prems obtain p1 where p1:
    "Conn_Write c (fst x) (fst (snd x)) (snd (snd x)) [] p = WriteDone (length (fst x)) None p1"
    "filling (w c) cp (D @ fst x) p1"
    using Write_filling [of c cp D p "fst (snd x)" "snd (snd x)" "fst x" "[]"] by auto
  have "length (D @ fst x) + length (written xs) \<le> cp"
    using Cons.prems(3) by (simp add: written_def)
  with Cons.IH [OF p1(2)] Cons.prems(2) obtain p2 where
    "write_all c xs p1 = Some (map (\<lambda>x. (length (fst x), None)) xs, p2)"
    "filling (w c) cp ((D @ fst x) @ written xs) p2"
    by auto
  with p1 show ?case by (simp add: written_def)
qed

lemma filling_draining: "filling h cp D p \<Longrightarrow> draining h D p"
  by (auto simp: filling_def draining_def hc_ok_def unread_def elems_def split: option.splits)

lemma Read_draining:
  assumes "draining (r c) U p" "\<not> expired (rd c) (t c) clk0 clk1" "length b \<le> length U"
  shows "\<exists>p1. Conn_Read c b clk0 clk1 ws p = ReadDone (length b) None (take (length b) U) p1 \<and>
              draining (r c) (drop (length b) U) p1"
proof -
  let ?h = "get (r c) p"
  let ?al = "netTimer_Set zero_netTimer (rd c) (t c) clk0"
  obtain s where s: "buf ?h = Some s" "len s \<le> length (arr s)" "\<not> eof ?h" "unread ?h = U"
      "(off ?h = 0 \<and> len s = 0) \<or> (0 \<le> off ?h \<and> off ?h < int (len s))"
    using assms(1) by (auto simp: draining_def hc_ok_def split: option.splits)
  have ne: "\<not> fst (netTimer_Timeout ?al clk1)"
    using assms(2) by (simp add: expired_def)
  show ?thesis
  proof (cases "b = []")
    case True
    have "read_switch ?al clk1 [] (addr ?h) ?h = RdReturn 0 None [] ?h"
      using s ne by (simp add: read_switch_empty_dest)
    from read_loop_return [OF this, of ws] True assms(1) show ?thesis
      by (simp add: Conn_Read_def halfConn_read_def)
  next
    case False
    then have "U \<noteq> []" using assms(3) by auto
    then have pos: "0 < len s" "0 \<le> off ?h" "off ?h < int (len s)"
      using s by (auto simp: unread_def elems_def)
    have lenU: "length U = len s - nat (off ?h)"
      using s pos by (auto simp: unread_def elems_def)
    have n: "min (length b) (length (unread ?h)) = length b"
      using assms(3) s by simp
    let ?c1 = "if nat (off ?h) + length b = len s
         then ?h\<lparr>Cond := Suc (Cond ?h), buf := Some (s\<lparr>len := 0\<rparr>), off := 0\<rparr>
         else ?h\<lparr>Cond := Suc (Cond ?h), off := off ?h + int (length b)\<rparr>"
    have sw: "read_switch ?al clk1 b (addr ?h) ?h =
        RdReturn (length b) None (take (length b) U) ?c1"
      using read_switch_data [of ?h s ?al clk1 b "addr ?h"] s pos ne False n assms(3)
      by (simp add: Let_def)
    have dr: "draining (r c) (drop (length b) U) (put (r c) ?c1 p)"
    proof (cases "nat (off ?h) + length b = len s")
      case True
      then show ?thesis
        using s lenU by (simp add: draining_def hc_ok_def unread_def elems_def)
    next
      case False
      then have "nat (off ?h) + length b < len s"
        using assms(3) lenU pos by linarith
      moreover have U: "U = drop (nat (off ?h)) (take (len s) (arr s))"
        using s(1,4) by (auto simp: unread_def elems_def)
      have "drop (length b) U = drop (nat (off ?h) + length b) (take (len s) (arr s))"
        by (subst U) (simp add: add.commute)
      ultimately show ?thesis
        using s pos False
        by (simp add: draining_def hc_ok_def unread_def elems_def nat_add_distrib)
    qed
    from read_loop_return [OF sw, of ws] dr show ?thesis
      by (simp add: Conn_Read_def halfConn_read_def)
  qed
qed

lemma read_all_draining:
  assumes "draining (r c) U p"
    "\<forall>x\<in>set xs. \<not> expired (rd c) (t c) (fst (snd x)) (snd (snd x))"
    "length (concat (map fst xs)) \<le> length U"
  shows "\<exists>rs p1. read_all c xs p = Some (rs, p1) \<and>
           received rs = take (length (concat (map fst xs))) U \<and>
           map fst rs = map (\<lambda>x. length (fst x)) xs \<and>
           map (\<lambda>x. fst (snd x)) rs = map (\<lambda>x. None) xs \<and>
           draining (r c) (drop (length (concat (map fst xs))) U) p1"
  using assms
proof (induction xs arbitrary: U p)
  case Nil
  then show ?case by (simp add: received_def)
next
  case (Cons x xs)
  let ?k = "length (fst x)"
  have k: "?k \<le> length U" using Cons.prems(3) by simp
  with Cons.prems obtain p1 where p1:
    "Conn_Read c (fst x) (fst (snd x)) (snd (snd x)) [] p = ReadDone ?k None (take ?k U) p1"
    "draining (r c) (drop ?k U) p1"
    using Read_draining [of c U p "fst (snd x)" "snd (snd x)" "fst x" "[]"] by auto
  have "length (concat (map fst xs)) \<le> length (drop ?k U)"
    using Cons.prems(3) by simp
  with Cons.IH [OF p1(2)] Cons.prems(2) obtain rs p2 where rs:
    "read_all c xs p1 = Some (rs, p2)"
    "received rs = take (length (concat (map fst xs))) (drop ?k U)"
    "map fst rs = map (\<lambda>x. length (fst x)) xs"
    "map (\<lambda>x. fst (snd x)) rs = map (\<lambda>x. None) xs"
    "draining (r c) (drop (length (concat (map fst xs))) (drop ?k U)) p2"
    by auto
  have "take ?k (take ?k U) @ take (length (concat (map fst xs))) (drop ?k U) =
        take (?k + length (concat (map fst xs))) U"
    by (simp add: take_add)
  with p1 rs show ?case
    by (simp add: received_def add.commute)
qed

lemma NewConn_filling: "filling h (capacity bufSize) [] (snd (NewConn addrA addrB bufSize))"
  by (cases h) (simp_all add: filling_def NewConn_def newHalfConn_def make_bytes_def capacity_def)


lemmas conn_eval = Conn_Write_def Conn_Read_def halfConn_write_def halfConn_read_def
  write_switch_def read_switch_def netTimer_Set_def netTimer_Timeout_def zero_netTimer_def
  compact_def fill_def Broadcast_def slice_defs Let_def


section \<open>C1: what is written is what is read\<close>

text \<open>
  Claim C1. On a new pair, let one endpoint \<open>cw\<close> make the \<open>Write\<close> calls \<open>ws\<close>, of
  total length at most the capacity, and then let an endpoint \<open>cr\<close> that reads the
  halfConn \<open>cw\<close> writes make the \<open>Read\<close> calls \<open>rs\<close>, whose destinations have the same
  total length. No timer of a call has expired at its first check. Then every
  \<open>Write\<close> returns the length of its argument and no error, every \<open>Read\<close> fills its
  destination and returns no error, none of the calls blocks, and the bytes
  returned by the reads, in order, are the bytes written, in order.
\<close>

theorem writes_then_reads_roundtrip:
  assumes "r cr = w cw"
    and "length (written ws) \<le> capacity bufSize"
    and "length (concat (map fst rs)) = length (written ws)"
    and "\<forall>x\<in>set ws. \<not> expired (wd cw) (t cw) (fst (snd x)) (snd (snd x))"
    and "\<forall>x\<in>set rs. \<not> expired (rd cr) (t cr) (fst (snd x)) (snd (snd x))"
  shows "\<exists>p1 res p2.
      write_all cw ws (snd (NewConn addrA addrB bufSize)) =
        Some (map (\<lambda>x. (length (fst x), None)) ws, p1) \<and>
      read_all cr rs p1 = Some (res, p2) \<and>
      received res = written ws \<and>
      map fst res = map (\<lambda>x. length (fst x)) rs \<and>
      map (\<lambda>x. fst (snd x)) res = map (\<lambda>x. None) rs"
proof -
  obtain p1 where p1:
    "write_all cw ws (snd (NewConn addrA addrB bufSize)) =
        Some (map (\<lambda>x. (length (fst x), None)) ws, p1)"
    "filling (w cw) (capacity bufSize) (written ws) p1"
    using write_all_filling [OF NewConn_filling assms(4), of bufSize addrA addrB] assms(2)
    by auto
  have "draining (r cr) (written ws) p1"
    using p1(2) assms(1) by (simp add: filling_draining)
  from read_all_draining [OF this assms(5)] assms(3) obtain res p2 where
    "read_all cr rs p1 = Some (res, p2)"
    "received res = take (length (concat (map fst rs))) (written ws)"
    "map fst res = map (\<lambda>x. length (fst x)) rs"
    "map (\<lambda>x. fst (snd x)) res = map (\<lambda>x. None) rs"
    by auto
  with p1(1) assms(3) show ?thesis by auto
qed


text \<open>
  The client writes \<open>ab\<close> and \<open>cd\<close> into a four-byte buffer, and the server reads
  three bytes and then one.
\<close>

theorem writes_then_reads_roundtrip_witness:
  "write_all client_conn [(''ab'', 7, 8), (''cd'', 9, 9)] new_pipe =
     Some ([(2, None), (2, None)],
       new_pipe\<lparr>hb := (hb new_pipe)\<lparr>Cond := 2, buf := Some \<lparr>arr = ''abcd'', len = 4\<rparr>\<rparr>\<rparr>) \<and>
   read_all server_conn [(''???'', 10, 11), (''?'', 12, 12)]
       (new_pipe\<lparr>hb := (hb new_pipe)\<lparr>Cond := 2, buf := Some \<lparr>arr = ''abcd'', len = 4\<rparr>\<rparr>\<rparr>) =
     Some ([(3, None, ''abc''), (1, None, ''d'')],
       new_pipe\<lparr>hb := (hb new_pipe)\<lparr>Cond := 4, buf := Some \<lparr>arr = ''abcd'', len = 0\<rparr>\<rparr>\<rparr>) \<and>
   received [(3, None, ''abc''), (1, None, ''d'')] = written [(''ab'', 7, 8), (''cd'', 9, 9)]"
  using writes_then_reads_roundtrip [of server_conn client_conn "[(''ab'', 7, 8), (''cd'', 9, 9)]" 4
      "[(''???'', 10, 11), (''?'', 12, 12)]" "''client''" "''server''"]
  by (simp add: ex_defs conn_eval time_defs received_def written_def)

section \<open>C3: one outcome per script run\<close>

text \<open>
  Claim C3. Every script run delivers exactly one outcome value on its capacity-1
  channel and then closes it: for every server, script and server state,
  \<open>t.script\<close> on the channel that \<open>Script\<close> has just made ends with the channel
  closed, holding the one value that was sent to it. That value is \<open>nil\<close> when the
  loop ran to its end, and it is the panic's value when the actions before some
  action returned normally and that action panicked; the actions after it do not
  matter.
\<close>

theorem script_delivers_one_outcome:
  "T_script m script (make_chan 1) s =
     (ChanDone \<lparr>queue = [fst (script_loop m 0 script s)], chan_cap = 1, closed = True, sent = 1\<rparr>,
      snd (script_loop m 0 script s)) \<and>
   (script_loop m 0 script s = (None, s1) \<longrightarrow>
      T_script m script (make_chan 1) s =
        (ChanDone \<lparr>queue = [None], chan_cap = 1, closed = True, sent = 1\<rparr>, s1)) \<and>
   (script_loop m 0 vs s = (None, s1) \<and> script_action m (length vs + 1) v s1 = (Some e, s2) \<longrightarrow>
      T_script m (vs @ v # vs') (make_chan 1) s =
        (ChanDone \<lparr>queue = [Some e], chan_cap = 1, closed = True, sent = 1\<rparr>, s2))"
proof (intro conjI impI)
  show "T_script m script (make_chan 1) s =
     (ChanDone \<lparr>queue = [fst (script_loop m 0 script s)], chan_cap = 1, closed = True, sent = 1\<rparr>,
      snd (script_loop m 0 script s))"
    by (rule T_script_outcome) simp
next
  assume "script_loop m 0 script s = (None, s1)"
  then show "T_script m script (make_chan 1) s =
        (ChanDone \<lparr>queue = [None], chan_cap = 1, closed = True, sent = 1\<rparr>, s1)"
    by (rule T_script_outcome)
next
  assume "script_loop m 0 vs s = (None, s1) \<and> script_action m (length vs + 1) v s1 = (Some e, s2)"
  then have "script_loop m 0 (vs @ v # vs') s = (Some e, s2)"
    using script_loop_append [of m 0 vs s s1 "v # vs'"] by simp
  then show "T_script m (vs @ v # vs') (make_chan 1) s =
        (ChanDone \<lparr>queue = [Some e], chan_cap = 1, closed = True, sent = 1\<rparr>, s2)"
    by (rule T_script_outcome)
qed

text \<open>
  A script of three lines against a client that sends \<open>A1 NOOP\<close>: the outcome is
  \<open>nil\<close>; with a trailing space in the expected line it is the mismatch raised by the
  second action, and the third line is not sent.
\<close>

theorem script_delivers_one_outcome_witness:
  "T_script line_server [String ''S: * OK ready'', String ''C: A1 NOOP'', String ''S: A1 OK done'']
     (make_chan 1) ([''A1 NOOP''], []) =
     (ChanDone \<lparr>queue = [None], chan_cap = 1, closed = True, sent = 1\<rparr>,
      ([], [''* OK ready'', ''A1 OK done''])) \<and>
   T_script line_server ([String ''S: * OK ready''] @ String ''C: A1 NOOP '' # [String ''S: A1 OK done''])
     (make_chan 1) ([''A1 NOOP''], []) =
     (ChanDone \<lparr>queue = [Some (Sprintf (Lit ''[#%d] expected %+q; got %+q (%v)'')
                   [IntArg 2, StrArg ''A1 NOOP '', StrArg ''A1 NOOP'', ErrorArg None])],
        chan_cap = 1, closed = True, sent = 1\<rparr>,
      ([], [''* OK ready'']))"
  using script_delivers_one_outcome [of line_server
      "[String ''S: * OK ready'', String ''C: A1 NOOP'', String ''S: A1 OK done'']"
      "([''A1 NOOP''], [])" "([], [''* OK ready'', ''A1 OK done''])"]
    script_delivers_one_outcome [of line_server _ "([''A1 NOOP''], [])" "([''A1 NOOP''], [''* OK ready''])"
      "[String ''S: * OK ready'']" "String ''C: A1 NOOP ''"
      "Sprintf (Lit ''[#%d] expected %+q; got %+q (%v)'')
                   [IntArg 2, StrArg ''A1 NOOP '', StrArg ''A1 NOOP'', ErrorArg None]"
      "([], [''* OK ready''])" "[String ''S: A1 OK done'']"]
  by (simp add: script_defs)

section \<open>C4: a deadline in the past\<close>

text \<open>
  Claim C4, as amended. The effective deadline of a call is the \<open>end\<close> that \<open>Set\<close>
  computes, and \<open>clk1\<close> is the clock reading of the call's first \<open>Timeout()\<close>. When
  that deadline is set and strictly before \<open>clk1\<close>, a \<open>read\<close> on a halfConn whose
  buffer is not released, and a \<open>write\<close> on a halfConn whose \<open>eof\<close> flag is not set,
  return on the first pass whatever the other goroutines would do (for every list
  \<open>ws\<close>), with zero bytes, the pair unchanged, and a \<open>netTimeout\<close> error; the
  \<open>Timeout()\<close> of every \<open>netTimeout\<close> is true and its \<open>Temporary()\<close> is false.
\<close>

theorem past_deadline_times_out:
  assumes "tend (netTimer_Set zero_netTimer d tmo clk0) \<noteq> 0"
    and "Before (tend (netTimer_Set zero_netTimer d tmo clk0)) clk1"
  shows "(buf (get h p) \<noteq> None \<longrightarrow>
            halfConn_read h b d tmo a clk0 clk1 ws p =
              ReadDone 0 (Some (netTimeout (''mock('' @ a @ ''): read timeout''))) b p) \<and>
         (\<not> eof (get h p) \<longrightarrow>
            halfConn_write h b d tmo a clk0 clk1 ws p =
              WriteDone 0 (Some (netTimeout (''mock('' @ a @ ''): write timeout''))) p) \<and>
         Timeout_method (netTimeout msg) = Some True \<and>
         Temporary_method (netTimeout msg) = Some False"
proof -
  let ?al = "netTimer_Set zero_netTimer d tmo clk0"
  have ex: "fst (netTimer_Timeout ?al clk1)"
    using assms by (simp add: Timeout_expired Before_def)
  have rd: "read_switch ?al clk1 b a (get h p) =
      RdReturn 0 (Some (netTimeout (''mock('' @ a @ ''): read timeout''))) b (get h p)"
    if "buf (get h p) \<noteq> None"
    using that ex by (simp add: read_switch_def case_prod_beta)
  have wr: "write_switch ?al clk1 b a 0 (get h p) =
      WrReturn 0 (Some (netTimeout (''mock('' @ a @ ''): write timeout''))) (get h p)"
    if "\<not> eof (get h p)"
    using that ex by (simp add: write_switch_def case_prod_beta)
  show ?thesis
    using read_loop_return [OF rd, of ws] write_loop_return [OF wr, of ws]
    by (simp add: halfConn_read_def halfConn_write_def netTimeout_Timeout_def
        netTimeout_Temporary_def)
qed

text \<open>A deadline of 10 and no timeout, at clock reading 50, on the new pair.\<close>

theorem past_deadline_times_out_witness:
  "halfConn_read HA ''????'' 10 0 ''client'' 50 50 [] new_pipe =
     ReadDone 0 (Some (netTimeout ''mock(client): read timeout'')) ''????'' new_pipe \<and>
   halfConn_write HA ''abc'' 10 0 ''server'' 50 50 [] new_pipe =
     WriteDone 0 (Some (netTimeout ''mock(server): write timeout'')) new_pipe"
  using past_deadline_times_out [of 10 0 50 50 HA new_pipe "''????''" "''client''" "[]"]
    past_deadline_times_out [of 10 0 50 50 HA new_pipe "''abc''" "''server''" "[]"]
  by (simp add: netTimer_Set_def zero_netTimer_def time_defs ex_defs)

text \<open>
  The claim as stated, for every call, fails after a close: with the same deadline in
  the past, \<open>read\<close> and \<open>write\<close> on the halfConn that the client has closed return
  \<open>io.EOF\<close>, which has no \<open>Timeout()\<close> method. The \<open>switch\<close> tests for the end of the
  stream before it asks the timer.
\<close>

theorem past_deadline_closed_counterexample:
  "tend (netTimer_Set zero_netTimer 10 0 50) = 10 \<and> Before 10 50 \<and>
   halfConn_read HA ''????'' 10 0 ''client'' 50 50 [] (Conn_close client_conn new_pipe) =
     ReadDone 0 (Some EOF) ''????'' (Conn_close client_conn new_pipe) \<and>
   halfConn_write HA ''abc'' 10 0 ''server'' 50 50 [] (Conn_close client_conn new_pipe) =
     WriteDone 0 (Some EOF) (Conn_close client_conn new_pipe) \<and>
   Timeout_method EOF = None"
  by (simp add: halfConn_read_def halfConn_write_def read_switch_def write_switch_def
      Conn_close_def Broadcast_def netTimer_Set_def zero_netTimer_def time_defs ex_defs Let_def)

section \<open>C7: the effective expiry of netTimer\<close>

text \<open>
  Claim C7, as amended. A timeout is set when it is positive and a deadline when it
  is not the zero time. \<open>Set\<close> makes \<open>end\<close> the earlier of the deadline and
  \<open>now + timeout\<close> when both are set, and the one that is set when only one is. A
  timeout that is zero or negative is unset: with no deadline either, \<open>Set\<close> changes
  nothing, and the timer of a call never expires (the call blocks for ever). In
  every case \<open>Timeout()\<close> is true iff \<open>end\<close> is set and not after the clock reading.
\<close>

theorem Set_effective_expiry:
  "(0 < tmo \<and> d \<noteq> 0 \<longrightarrow> tend (netTimer_Set al d tmo clk) = min d (clk + tmo)) \<and>
   (0 < tmo \<and> d = 0 \<longrightarrow> tend (netTimer_Set al d tmo clk) = clk + tmo) \<and>
   (tmo \<le> 0 \<and> d \<noteq> 0 \<longrightarrow> tend (netTimer_Set al d tmo clk) = d) \<and>
   (tmo \<le> 0 \<and> d = 0 \<longrightarrow> netTimer_Set al d tmo clk = al) \<and>
   (tmo \<le> 0 \<and> d = 0 \<longrightarrow> \<not> fst (netTimer_Timeout (netTimer_Set zero_netTimer d tmo clk) clk')) \<and>
   fst (netTimer_Timeout (netTimer_Set al d tmo clk) clk') =
     (tend (netTimer_Set al d tmo clk) \<noteq> 0 \<and> tend (netTimer_Set al d tmo clk) \<le> clk')"
  by (auto simp: netTimer_Set_def netTimer_Timeout_def zero_netTimer_def time_defs Let_def)

theorem Set_effective_expiry_witness:
  "tend (netTimer_Set zero_netTimer 70 50 30) = 70 \<and>
   tend (netTimer_Set zero_netTimer 90 50 30) = 80 \<and>
   tend (netTimer_Set zero_netTimer 0 50 30) = 80 \<and>
   tend (netTimer_Set zero_netTimer 70 0 30) = 70 \<and>
   netTimer_Set zero_netTimer 0 0 30 = zero_netTimer \<and>
   \<not> fst (netTimer_Timeout (netTimer_Set zero_netTimer 0 0 30) 1000)"
  using Set_effective_expiry [of 50 70 zero_netTimer 30 1000]
    Set_effective_expiry [of 50 90 zero_netTimer 30 1000]
    Set_effective_expiry [of 50 0 zero_netTimer 30 1000]
    Set_effective_expiry [of 0 70 zero_netTimer 30 1000]
    Set_effective_expiry [of 0 0 zero_netTimer 30 1000]
  by (simp add: netTimer_Timeout_def zero_netTimer_def IsZero_def)

text \<open>
  A zero timeout does not mean "no wait": with timeout 0 and no deadline the timer
  has not expired at any later clock reading, and a read on the empty buffer of the
  new pair blocks.
\<close>

theorem zero_timeout_counterexample:
  "\<not> fst (netTimer_Timeout (netTimer_Set zero_netTimer 0 0 30) 1000) \<and>
   halfConn_read HA ''????'' 0 0 ''client'' 30 1000 [] new_pipe = ReadBlocked zero_netTimer new_pipe"
  by (simp add: halfConn_read_def read_switch_def netTimer_Set_def netTimer_Timeout_def
      netTimer_Schedule_def zero_netTimer_def time_defs ex_defs len_s_def Let_def)

section \<open>C8: Join without an active script\<close>

text \<open>
  Claim C8, as amended. \<open>Join\<close> on a channel that is closed and empty, which is what a
  finished run leaves once its outcome has been received, logs
  \<open>t.Join() called without an active script\<close>, marks the test failed and ends it.
  This differs from what \<open>Join\<close> does with the \<open>nil\<close> outcome of a finished run: there
  it takes the outcome and returns, logging nothing.
\<close>

theorem Join_without_active_script:
  "(ch x = Some c \<and> queue c = [] \<and> closed c \<longrightarrow>
      T_Join caller err x =
        JoinFailNow (x\<lparr>logged := logged x @
            [Sprintf (cl caller ''t.Join() called without an active script'') []],
          failed := True\<rparr>)) \<and>
   (ch x = Some c \<and> queue c = [None] \<and> \<not> failed x \<longrightarrow>
      T_Join caller None x = JoinReturns (x\<lparr>ch := Some (c\<lparr>queue := []\<rparr>)\<rparr>))"
  by (auto simp: T_Join_def chan_recv_def Errorf_def Join_tail_def Let_def)

text \<open>Two calls of \<open>Join\<close> after one successful run.\<close>

theorem Join_without_active_script_witness:
  "T_Join None None (fresh_T\<lparr>ch := Some done_chan\<rparr>) =
     JoinReturns (fresh_T\<lparr>ch := Some (done_chan\<lparr>queue := []\<rparr>)\<rparr>) \<and>
   T_Join None None (fresh_T\<lparr>ch := Some (done_chan\<lparr>queue := []\<rparr>)\<rparr>) =
     JoinFailNow \<lparr>failed = True,
       logged = [Sprintf (Lit ''t.Join() called without an active script'') []],
       ch = Some (done_chan\<lparr>queue := []\<rparr>)\<rparr>"
  using Join_without_active_script [of "fresh_T\<lparr>ch := Some done_chan\<rparr>" done_chan None None]
    Join_without_active_script [of "fresh_T\<lparr>ch := Some (done_chan\<lparr>queue := []\<rparr>)\<rparr>"
      "done_chan\<lparr>queue := []\<rparr>" None None]
  by (simp add: fresh_T_def done_chan_def cl_def)

text \<open>
  When no run was ever started the channel is \<open>nil\<close>, and the receive of \<open>Join\<close> blocks
  for ever: nothing is reported.
\<close>

theorem Join_never_started_counterexample:
  "T_Join None None fresh_T = JoinBlocksForever"
  by (simp add: T_Join_def chan_recv_def fresh_T_def)

section \<open>C9: Close twice\<close>

text \<open>
  Claim C9, as amended. \<open>Close\<close> returns \<open>nil\<close>, and a second \<open>Close\<close> on the same
  endpoint leaves the whole pair as the first one left it.
\<close>

theorem Close_twice_same_endpoint:
  "fst (Conn_Close c p) = None \<and>
   Conn_Close c (snd (Conn_Close c p)) = (None, snd (Conn_Close c p))"
proof -
  have "Conn_close c (Conn_close c p) = Conn_close c p"
    using Conn_close_released [of c p] by (simp add: Conn_close_def [of c "Conn_close c p"])
  then show ?thesis by (simp add: Conn_Close_def)
qed

theorem Close_twice_same_endpoint_witness:
  "Conn_Close client_conn (snd (Conn_Close client_conn new_pipe)) =
     (None, \<lparr>ha = \<lparr>Cond = 1, addr = ''client'', buf = None, off = 0, eof = True\<rparr>,
             hb = \<lparr>Cond = 1, addr = ''server'',
                   buf = Some \<lparr>arr = replicate 4 (CHR 0x00), len = 0\<rparr>, off = 0, eof = True\<rparr>\<rparr>)"
  using Close_twice_same_endpoint [of client_conn new_pipe]
  by (simp add: Conn_Close_def Conn_close_def ex_defs Broadcast_def Let_def)

text \<open>
  A \<open>Close\<close> by the other endpoint is not a no-op: after the client's \<open>Close\<close>, the
  server's \<open>Close\<close> releases the server's read buffer and broadcasts again.
\<close>

theorem Close_by_peer_counterexample:
  "Conn_Close server_conn (snd (Conn_Close client_conn new_pipe)) \<noteq>
     (None, snd (Conn_Close client_conn new_pipe))"
  by (simp add: Conn_Close_def Conn_close_def ex_defs Broadcast_def Let_def)

section \<open>C10: EnableTLS on an encrypted transport\<close>

text \<open>
  Claim C10. When \<open>Encrypted()\<close> reports true, \<open>EnableTLS\<close> returns
  \<open>ErrEncryptionActive\<close> and leaves the transport as it is; it makes none of the
  calls \<open>tls.Server\<close>, \<open>Handshake\<close> and \<open>Attach\<close>.
\<close>

theorem EnableTLS_when_encrypted:
  "Encrypted e x \<Longrightarrow> mockServer_EnableTLS e config x = (Some ErrEncryptionActive, x, [])"
  by (simp add: mockServer_EnableTLS_def)

theorem EnableTLS_when_encrypted_witness:
  "mockServer_EnableTLS layer_env () \<lparr>conn = 1, bufLink = [1, 1], cmpLink = []\<rparr> =
     (Some ErrEncryptionActive, \<lparr>conn = 1, bufLink = [1, 1], cmpLink = []\<rparr>, []) \<and>
   mockServer_EnableTLS layer_env () \<lparr>conn = 0, bufLink = [0, 0], cmpLink = []\<rparr> =
     (None, \<lparr>conn = 1, bufLink = [1, 1], cmpLink = []\<rparr>,
      [Call_Server, Call_Handshake, Call_bufLink_Attach])"
  using EnableTLS_when_encrypted [of layer_env "\<lparr>conn = 1, bufLink = [1, 1], cmpLink = []\<rparr>" "()"]
  by (simp add: layer_env_def mockServer_EnableTLS_def)

end
